theory Spec2Isabelle
  imports Complex_Main "HOL-Library.AList" "HOL-Library.Sublist"
begin

section \<open>The tables of the script\<close>

text \<open>
  A cell of a table read by \<open>pd.read_csv\<close> is a text or null (NaN): \<open>string option\<close>.
  A raw row carries the columns of the SESAB files that the script reads, under the
  column names of the source (with \<open>_\<close> for the blank). The names are those the code
  reads: lines 276 and 291 read \<open>DATA DA COLETA DO TESTE\<close>, where the docstring (line 23)
  writes \<open>DATA DE COLETA DO TESTE\<close>.
\<close>

record linha =
  DATA_DA_NOTIFICACAO :: "string option"
  MUNICIPIO_DE_RESIDENCIA :: "string option"
  DATA_DA_COLETA_DO_TESTE :: "string option"
  TIPO_DE_TESTE :: "string option"
  RESULTADO_DO_TESTE :: "string option"
  ESTADO_DO_TESTE :: "string option"

text \<open>
  A row of \<open>combinado\<close>: the five \<open>colunas_interessantes\<close> (lines 286-292), in lower case
  since a record of this theory already owns the upper-case names. The notification date
  is a text until line 309 and a timestamp afterwards, hence the type parameter; null
  (NaN, NaT) is \<open>None\<close>.
\<close>

record 'd registro =
  data_da_notificacao :: "'d option"
  municipio_de_residencia :: "string option"
  teste :: bool
  fonte :: string
  data_da_coleta_do_teste :: "string option"

text \<open>Lines 258-260 and 266-267 with the column selection of lines 295-296: a row of the
  confirmed or of the discarded table, tagged with its source and with \<open>TESTE = True\<close>.\<close>

definition selecionar :: "string \<Rightarrow> bool \<Rightarrow> linha \<Rightarrow> string registro" where
  "selecionar f t r =
     \<lparr>data_da_notificacao = DATA_DA_NOTIFICACAO r,
      municipio_de_residencia = MUNICIPIO_DE_RESIDENCIA r,
      teste = t,
      fonte = f,
      data_da_coleta_do_teste = DATA_DA_COLETA_DO_TESTE r\<rparr>"

text \<open>Lines 274-278: \<open>~isnull\<close> of the three columns, joined by \<open>|\<close>.\<close>

definition notnull :: "'a option \<Rightarrow> bool" where
  "notnull c = (case c of None \<Rightarrow> False | Some _ \<Rightarrow> True)"

definition teste_por_colunas :: "linha \<Rightarrow> bool" where
  "teste_por_colunas r =
     (notnull (TIPO_DE_TESTE r) \<or> notnull (DATA_DA_COLETA_DO_TESTE r) \<or>
      notnull (RESULTADO_DO_TESTE r))"

text \<open>Line 282: where \<open>ESTADO DO TESTE\<close> equals the literal, \<open>TESTE\<close> is overwritten by
  \<open>False\<close>; a null state equals no text.\<close>

definition teste_suspeito :: "linha \<Rightarrow> bool" where
  "teste_suspeito r =
     (if ESTADO_DO_TESTE r = Some ''EXAME NAO SOLICITADO'' then False
      else teste_por_colunas r)"

text \<open>Lines 294-300: \<open>pd.concat\<close> of the three selections, confirmed first.\<close>

definition combinar :: "linha list \<Rightarrow> linha list \<Rightarrow> linha list \<Rightarrow> string registro list" where
  "combinar confirmados descartados suspeitos =
     map (selecionar ''CONFIRMADOS'' True) confirmados @
     map (selecionar ''DESCARTADOS'' True) descartados @
     map (\<lambda>r. selecionar ''SUSPEITOS'' (teste_suspeito r) r) suspeitos"


section \<open>Dates\<close>

text \<open>
  A parsed notification date. The script reads its year (line 317) and, through
  \<open>resample("1d")\<close>, its calendar day; \<open>toordinal\<close> numbers the days of the proleptic
  Gregorian calendar as Python's \<open>date.toordinal\<close> does (division rounds down in both).
\<close>

datatype timestamp = Timestamp (year: int) (month: int) (day: int)

definition is_leap :: "int \<Rightarrow> bool" where
  "is_leap y = (y mod 4 = 0 \<and> (y mod 100 \<noteq> 0 \<or> y mod 400 = 0))"

definition days_before_year :: "int \<Rightarrow> int" where
  "days_before_year y = (let z = y - 1 in z * 365 + z div 4 - z div 100 + z div 400)"

definition days_in_month :: "int \<Rightarrow> int \<Rightarrow> int" where
  "days_in_month y m =
     (if m = 2 \<and> is_leap y then 29
      else if 1 \<le> m \<and> m \<le> 12 then [31, 28, 31, 30, 31, 30, 31, 31, 30, 31, 30, 31] ! nat (m - 1)
      else 0)"

definition days_before_month :: "int \<Rightarrow> int \<Rightarrow> int" where
  "days_before_month y m = sum_list (map (days_in_month y) [1..m - 1])"

definition toordinal :: "timestamp \<Rightarrow> int" where
  "toordinal t = days_before_year (year t) + days_before_month (year t) (month t) + day t"

text \<open>
  \<open>pd.to_datetime\<close> (lines 309-313) is library code: the reconciler below takes the
  parser of one cell as a parameter, \<open>None\<close> when the library raises on the text. The
  examples use \<open>strptime_dmy\<close>, the format \<open>%d/%m/%Y\<close> of line 311 on texts of two, two
  and four digits.
\<close>

definition numero :: "string \<Rightarrow> int option" where
  "numero s =
     (if s \<noteq> [] \<and> list_all (\<lambda>c. (48::nat) \<le> of_char c \<and> of_char c \<le> (57::nat)) s
      then Some (foldl (\<lambda>n c. 10 * n + (of_char c - 48)) 0 s)
      else None)"

fun split_sep :: "char \<Rightarrow> string \<Rightarrow> string list" where
  "split_sep sep [] = [[]]"
| "split_sep sep (c # cs) =
     (if c = sep then [] # split_sep sep cs
      else (case split_sep sep cs of [] \<Rightarrow> [[c]] | w # ws \<Rightarrow> (c # w) # ws))"

definition strptime_dmy :: "string \<Rightarrow> timestamp option" where
  "strptime_dmy s =
     (case split_sep CHR ''/'' s of
        [d, m, y] \<Rightarrow>
          (if length d = 2 \<and> length m = 2 \<and> length y = 4 then
             (case (numero d, numero m, numero y) of
                (Some dd, Some mm, Some yy) \<Rightarrow>
                  (if 1 \<le> mm \<and> mm \<le> 12 \<and> 1 \<le> dd \<and> dd \<le> days_in_month yy mm
                   then Some (Timestamp yy mm dd) else None)
              | _ \<Rightarrow> None)
           else None)
      | _ \<Rightarrow> None)"

section \<open>The reconciler (lines 258-317)\<close>

datatype mensagem =
    Plotando_graficos_para_a_cidade string
  | Nenhum_registro_encontrado
  | Carregando_arquivos_do_dia string
  | Realizando_limpeza_dos_dados
  | Carregando_base_de_dados
  | Numero_de_arquivos_diferente_de_3

datatype erro =
    IndexError
  | SystemExit mensagem
  | KeyError string
  | ValueError
  | ParserError
  | FileNotFoundError
  | PlotError

definition com_data :: "'e option \<Rightarrow> 'd registro \<Rightarrow> 'e registro" where
  "com_data t r =
     \<lparr>data_da_notificacao = t,
      municipio_de_residencia = municipio_de_residencia r,
      teste = teste r,
      fonte = fonte r,
      data_da_coleta_do_teste = data_da_coleta_do_teste r\<rparr>"

text \<open>Lines 309-313 on the whole column: the first text the parser rejects raises; a
  null cell stays null (NaT).\<close>

primrec to_datetime :: "(string \<Rightarrow> timestamp option) \<Rightarrow> string registro list \<Rightarrow>
    erro + timestamp registro list" where
  "to_datetime parse [] = Inr []"
| "to_datetime parse (r # rs) =
     (case data_da_notificacao r of
        None \<Rightarrow>
          (case to_datetime parse rs of
             Inl e \<Rightarrow> Inl e
           | Inr ts \<Rightarrow> Inr (com_data None r # ts))
      | Some s \<Rightarrow>
          (case parse s of
             None \<Rightarrow> Inl ValueError
           | Some t \<Rightarrow>
               (case to_datetime parse rs of
                  Inl e \<Rightarrow> Inl e
                | Inr ts \<Rightarrow> Inr (com_data (Some t) r # ts))))"

text \<open>Line 317: \<open>dt.year >= 2020\<close>; the year of NaT is NaN, which compares false.\<close>

definition ano_valido :: "timestamp registro \<Rightarrow> bool" where
  "ano_valido r = (case data_da_notificacao r of None \<Rightarrow> False | Some t \<Rightarrow> 2020 \<le> year t)"

definition reconciliar :: "(string \<Rightarrow> timestamp option) \<Rightarrow> linha list \<Rightarrow> linha list \<Rightarrow>
    linha list \<Rightarrow> erro + timestamp registro list" where
  "reconciliar parse confirmados descartados suspeitos =
     (let combinado = combinar confirmados descartados suspeitos;
          combinado = filter (\<lambda>r. notnull (data_da_notificacao r)) combinado
      in case to_datetime parse combinado of
           Inl e \<Rightarrow> Inl e
         | Inr combinado \<Rightarrow> Inr (filter ano_valido combinado))"


section \<open>The daily series (lines 158-164)\<close>

text \<open>
  A series is a list of days (ordinals) with their values, in the order of its index.
  Counts and means are exact rationals here; the script computes them in binary floating
  point. A value the library reports as NaN is \<open>None\<close>.
\<close>

definition dias :: "timestamp registro list \<Rightarrow> int list" where
  "dias tab = List.map_filter (\<lambda>r. map_option toordinal (data_da_notificacao r)) tab"

definition contagem_do_dia :: "timestamp registro list \<Rightarrow> int \<Rightarrow> nat" where
  "contagem_do_dia tab d = count_list (dias tab) d"

text \<open>\<open>resample("1d")["TESTE"].count()\<close>: one bin for every calendar day from the first
  to the last day of the index, the empty days counting 0; an empty table gives an empty
  series. \<open>TESTE\<close> is never null, so every row of a day is counted.\<close>

definition resample_count :: "timestamp registro list \<Rightarrow> (int \<times> nat) list" where
  "resample_count tab =
     (if dias tab = [] then []
      else map (\<lambda>d. (d, contagem_do_dia tab d)) [Min (set (dias tab))..Max (set (dias tab))])"

text \<open>\<open>rolling(window=w).mean()\<close>: the mean of the last \<open>w\<close> values, NaN while fewer than
  \<open>w\<close> values are there (and for an empty window); a negative window raises.\<close>

definition rolling_mean :: "int \<Rightarrow> (int \<times> nat) list \<Rightarrow> erro + (int \<times> rat option) list" where
  "rolling_mean w s =
     (if w < 0 then Inl ValueError
      else Inr (map (\<lambda>i. (fst (s ! i),
                  if w = 0 \<or> i + 1 < nat w then None
                  else Some (of_nat (sum_list (map snd (take (nat w) (drop (i + 1 - nat w) s))))
                             / of_int w)))
                [0..<length s]))"

text \<open>Lines 162-163, \<open>s[s > 1]\<close>: NaN compares false and goes as well.\<close>

definition maior_que_1 :: "(int \<times> rat option) list \<Rightarrow> (int \<times> rat) list" where
  "maior_que_1 s =
     List.map_filter (\<lambda>(d, v). case v of None \<Rightarrow> None
                                | Some x \<Rightarrow> if 1 < x then Some (d, x) else None) s"

text \<open>Line 164, \<open>confirmado/tests\<close>: the division of two series is aligned on the union of
  their days, in order, and is NaN on a day that one of them lacks.\<close>

definition dividir :: "(int \<times> rat) list \<Rightarrow> (int \<times> rat) list \<Rightarrow> (int \<times> rat option) list" where
  "dividir a b =
     map (\<lambda>d. (d, case (map_of a d, map_of b d) of
                     (Some x, Some y) \<Rightarrow> Some (x / y)
                   | _ \<Rightarrow> None))
         (sort (remdups (map fst a @ map fst b)))"

definition series_do_grafico :: "int \<Rightarrow> timestamp registro list \<Rightarrow>
    erro + ((int \<times> rat) list \<times> (int \<times> rat) list \<times> (int \<times> rat option) list)" where
  "series_do_grafico tamanho_da_janela combinado =
     (case rolling_mean tamanho_da_janela (resample_count combinado) of
        Inl e \<Rightarrow> Inl e
      | Inr tests \<Rightarrow>
          (case rolling_mean tamanho_da_janela
                  (resample_count (filter (\<lambda>r. fonte r = ''CONFIRMADOS'') combinado)) of
             Inl e \<Rightarrow> Inl e
           | Inr confirmado \<Rightarrow>
               (let tests = maior_que_1 tests;
                    confirmado = maior_que_1 confirmado;
                    ratio = dividir confirmado tests
                in Inr (tests, confirmado, ratio))))"

section \<open>The reporter (lines 114-195)\<close>

record grafico =
  title :: string
  area_tests :: "(int \<times> rat) list"
  area_confirmado :: "(int \<times> rat) list"
  plot_ratio :: "(int \<times> rat option) list"
  total_de_testes :: nat

text \<open>
  What a run can change: the files of the working directory (in listing order), the lines
  printed, and the figures shown in interactive mode.
\<close>

datatype arquivo =
    Tabela_bruta "linha list"
  | Base_de_testes "timestamp registro list"
  | Imagem grafico

record estado =
  pasta :: "(string \<times> arquivo) list"
  stdout :: "mensagem list"
  janelas :: "grafico list"

definition print :: "mensagem \<Rightarrow> estado \<Rightarrow> estado" where
  "print m st = st\<lparr>stdout := stdout st @ [m]\<rparr>"

text \<open>Lines 149-150: the rows of one city, or all of them for \<open>BAHIA\<close>; a null city equals
  no name.\<close>

definition filtrar_cidade :: "string \<Rightarrow> 'd registro list \<Rightarrow> 'd registro list" where
  "filtrar_cidade cidade combinado =
     (if cidade \<noteq> ''BAHIA''
      then filter (\<lambda>r. municipio_de_residencia r = Some cidade) combinado
      else combinado)"

definition titulo :: "string \<Rightarrow> string \<Rightarrow> string" where
  "titulo cidade data =
     (if cidade = ''BAHIA''
      then ''Casos de COVID - '' @ cidade @ '' (Fonte: SESAB, em '' @ data @ '')''
      else ''Casos de COVID - '' @ cidade @ '' - BA (Fonte: SESAB, em '' @ data @ '')'')"

definition nome_do_plot :: "string \<Rightarrow> string \<Rightarrow> string" where
  "nome_do_plot cidade data =
     ''plot_'' @ map (\<lambda>c. if c = CHR '' '' then CHR ''_'' else c) cidade @ ''_'' @ data @ ''.png''"

text \<open>
  Lines 152-195, on the rows already filtered. The calls into the plotting library
  (lines 168-195) are not in the source: \<open>desenhar\<close> says whether they raise on a figure.
\<close>

definition plotar_filtrado :: "(grafico \<Rightarrow> erro option) \<Rightarrow> timestamp registro list \<Rightarrow> string \<Rightarrow>
    string \<Rightarrow> int \<Rightarrow> bool \<Rightarrow> estado \<Rightarrow> erro option \<times> estado" where
  "plotar_filtrado desenhar combinado cidade data tamanho_da_janela interativo st =
     (let N = length combinado in
      if N = 0 then (None, print Nenhum_registro_encontrado st)
      else
        (case series_do_grafico tamanho_da_janela combinado of
           Inl e \<Rightarrow> (Some e, st)
         | Inr (tests, confirmado, ratio) \<Rightarrow>
             (let fig = \<lparr>title = titulo cidade data,
                         area_tests = filter (\<lambda>(d, x). 1 < x) tests,
                         area_confirmado = filter (\<lambda>(d, x). 1 < x) confirmado,
                         plot_ratio = ratio,
                         total_de_testes = N\<rparr>
              in case desenhar fig of
                   Some e \<Rightarrow> (Some e, st)
                 | None \<Rightarrow>
                     (if interativo then (None, st\<lparr>janelas := janelas st @ [fig]\<rparr>)
                      else (None, st\<lparr>pasta := AList.update (nome_do_plot cidade data)
                                                  (Imagem fig) (pasta st)\<rparr>)))))"

definition plotar_testes_por_cidade :: "(grafico \<Rightarrow> erro option) \<Rightarrow> timestamp registro list \<Rightarrow>
    string \<Rightarrow> string \<Rightarrow> int \<Rightarrow> bool \<Rightarrow> estado \<Rightarrow> erro option \<times> estado" where
  "plotar_testes_por_cidade desenhar combinado cidade data tamanho_da_janela interativo st =
     plotar_filtrado desenhar (filtrar_cidade cidade combinado) cidade data
       tamanho_da_janela interativo st"

text \<open>Lines 332-337: the cities in the order given; an exception ends the run.\<close>

fun plotar_cidades :: "(grafico \<Rightarrow> erro option) \<Rightarrow> timestamp registro list \<Rightarrow> string \<Rightarrow>
    string list \<Rightarrow> int \<Rightarrow> bool \<Rightarrow> estado \<Rightarrow> erro option \<times> estado" where
  "plotar_cidades desenhar combinado data [] janela interativo st = (None, st)"
| "plotar_cidades desenhar combinado data (cidade # cidades) janela interativo st =
     (case plotar_testes_por_cidade desenhar combinado cidade data janela interativo
             (print (Plotando_graficos_para_a_cidade cidade) st) of
        (Some e, st') \<Rightarrow> (Some e, st')
      | (None, st') \<Rightarrow> plotar_cidades desenhar combinado data cidades janela interativo st')"

subsection \<open>The reporter with the tables as objects\<close>

text \<open>
  In the script a table is an object and \<open>combinado\<close> a name bound to a reference to it.
  Here the objects live in a store, a reference is an index into the store, and every
  statement of the reporter and of lines 327-337 that touches a table is an operation on
  the store. The calls that the source makes on a table are of two kinds in pandas:
  \<open>df[mask]\<close>, \<open>df.loc[mask]\<close> and \<open>df.set_index(...)\<close> return a new table and leave
  \<open>df\<close> alone; \<open>df.shape\<close> and \<open>df.resample(...)[...].count()\<close> read \<open>df\<close>. An assignment
  \<open>combinado = ...\<close> binds the name to the new reference; inside the function the name is
  the parameter, a local one.
\<close>

type_synonym objetos = "timestamp registro list list"

definition getitem_mask :: "(timestamp registro \<Rightarrow> bool) \<Rightarrow> nat \<Rightarrow> objetos \<Rightarrow> nat \<times> objetos" where
  "getitem_mask m a h = (length h, h @ [filter m (h ! a)])"

definition set_index :: "nat \<Rightarrow> objetos \<Rightarrow> nat \<times> objetos" where
  "set_index a h = (length h, h @ [h ! a])"

text \<open>Lines 149-195 on a reference. Line 150 rebinds \<open>combinado\<close>; line 159 makes the
  table of the confirmed rows.\<close>

definition plotar_testes_por_cidade_ref :: "(grafico \<Rightarrow> erro option) \<Rightarrow> nat \<Rightarrow>
    string \<Rightarrow> string \<Rightarrow> int \<Rightarrow> bool \<Rightarrow> objetos \<times> estado \<Rightarrow> erro option \<times> objetos \<times> estado" where
  "plotar_testes_por_cidade_ref desenhar combinado cidade data tamanho_da_janela interativo hs =
     (case hs of (h, st) \<Rightarrow>
        (case (if cidade \<noteq> ''BAHIA''
               then getitem_mask (\<lambda>r. municipio_de_residencia r = Some cidade) combinado h
               else (combinado, h)) of
           (combinado, h) \<Rightarrow>
             (let N = length (h ! combinado) in
              if N = 0 then (None, h, print Nenhum_registro_encontrado st)
              else
                (case rolling_mean tamanho_da_janela (resample_count (h ! combinado)) of
                   Inl e \<Rightarrow> (Some e, h, st)
                 | Inr tests \<Rightarrow>
                     (case getitem_mask (\<lambda>r. fonte r = ''CONFIRMADOS'') combinado h of
                        (confirmados, h) \<Rightarrow>
                          (case rolling_mean tamanho_da_janela
                                  (resample_count (h ! confirmados)) of
                             Inl e \<Rightarrow> (Some e, h, st)
                           | Inr confirmado \<Rightarrow>
                               (let tests = maior_que_1 tests;
                                    confirmado = maior_que_1 confirmado;
                                    ratio = dividir confirmado tests;
                                    fig = \<lparr>title = titulo cidade data,
                                           area_tests = filter (\<lambda>(d, x). 1 < x) tests,
                                           area_confirmado = filter (\<lambda>(d, x). 1 < x) confirmado,
                                           plot_ratio = ratio,
                                           total_de_testes = N\<rparr>
                                in case desenhar fig of
                                     Some e \<Rightarrow> (Some e, h, st)
                                   | None \<Rightarrow>
                                       (if interativo
                                        then (None, h, st\<lparr>janelas := janelas st @ [fig]\<rparr>)
                                        else (None, h,
                                              st\<lparr>pasta := AList.update (nome_do_plot cidade data)
                                                            (Imagem fig) (pasta st)\<rparr>)))))))))"

text \<open>Lines 332-337: every call receives the reference that the name \<open>combinado\<close> of the
  main block holds.\<close>

fun plotar_cidades_ref :: "(grafico \<Rightarrow> erro option) \<Rightarrow> nat \<Rightarrow> string \<Rightarrow>
    string list \<Rightarrow> int \<Rightarrow> bool \<Rightarrow> objetos \<times> estado \<Rightarrow> erro option \<times> objetos \<times> estado" where
  "plotar_cidades_ref desenhar combinado data [] janela interativo hs = (None, hs)"
| "plotar_cidades_ref desenhar combinado data (cidade # cidades) janela interativo hs =
     (case plotar_testes_por_cidade_ref desenhar combinado cidade data janela interativo
             (fst hs, print (Plotando_graficos_para_a_cidade cidade) (snd hs)) of
        (Some e, hs') \<Rightarrow> (Some e, hs')
      | (None, hs') \<Rightarrow> plotar_cidades_ref desenhar combinado data cidades janela interativo hs')"


section \<open>The program (lines 226-337)\<close>

record argumentos =
  cidades :: "string list"
  janela :: int
  interativo :: bool

text \<open>Line 231: the names of the directory that start with the fixed text, in listing
  order.\<close>

definition glob_banco :: "(string \<times> arquivo) list \<Rightarrow> string list" where
  "glob_banco p = filter (prefix ''Banco Estadual COVID-19'') (map fst p)"

text \<open>Line 232, \<open>split("_")[-1].split(".")[0]\<close>, and line 241,
  \<open>split(" ")[-1].split("_")[0]\<close>; a split is never empty.\<close>

definition data_do_arquivo :: "string \<Rightarrow> string" where
  "data_do_arquivo a = hd (split_sep CHR ''.'' (last (split_sep CHR ''_'' a)))"

definition chave_do_arquivo :: "string \<Rightarrow> string" where
  "chave_do_arquivo a = hd (split_sep CHR ''_'' (last (split_sep CHR '' '' a)))"

definition base_de_testes :: "string \<Rightarrow> string" where
  "base_de_testes data = ''base-de-testes_'' @ data @ ''.csv''"

text \<open>\<open>pd.read_csv\<close> of a raw file: its table, when the file holds one.\<close>

definition read_csv :: "(string \<times> arquivo) list \<Rightarrow> string \<Rightarrow> erro + linha list" where
  "read_csv p n =
     (case map_of p n of
        None \<Rightarrow> Inl FileNotFoundError
      | Some (Tabela_bruta t) \<Rightarrow> Inr t
      | Some _ \<Rightarrow> Inl ParserError)"

text \<open>Lines 247-252: one table for every key of \<open>chaves\<close>, read in the order of the keys.\<close>

primrec ler_dados :: "(string \<times> arquivo) list \<Rightarrow> (string \<times> string) list \<Rightarrow>
    erro + (string \<times> linha list) list" where
  "ler_dados p [] = Inr []"
| "ler_dados p (ca # chaves) =
     (case read_csv p (snd ca) of
        Inl e \<Rightarrow> Inl e
      | Inr t \<Rightarrow>
          (case ler_dados p chaves of
             Inl e \<Rightarrow> Inl e
           | Inr dados \<Rightarrow> Inr ((fst ca, t) # dados)))"

text \<open>
  The table \<open>combinado\<close> that either branch of line 236 leaves behind: its rows, and
  whether its column \<open>TESTE\<close> is a boolean column. The column built by lines 266-282 is
  one; the column that \<open>pd.read_csv\<close> reads back from the cache file is one when the file
  has rows, and an object column when the file holds the header alone.
\<close>

record base =
  registros :: "timestamp registro list"
  teste_booleano :: bool

text \<open>Lines 238-320: the branch that builds the table and writes the cache file. A
  dictionary is a list of pairs in insertion order; a later file with the key of an
  earlier one takes its place (lines 241-243).\<close>

definition criar_base :: "(string \<Rightarrow> timestamp option) \<Rightarrow> string list \<Rightarrow> string \<Rightarrow> estado \<Rightarrow>
    (erro + base) \<times> estado" where
  "criar_base parse arquivos data st =
     (if length arquivos \<noteq> 3 then (Inl (SystemExit Numero_de_arquivos_diferente_de_3), st)
      else
        (let chaves = foldl (\<lambda>m a. AList.update (chave_do_arquivo a) a m) [] arquivos;
             st1 = print (Carregando_arquivos_do_dia data) st
         in case ler_dados (pasta st1) chaves of
              Inl e \<Rightarrow> (Inl e, st1)
            | Inr dados \<Rightarrow>
                (case map_of dados ''CONFIRMADOS'' of
                   None \<Rightarrow> (Inl (KeyError ''CONFIRMADOS''), st1)
                 | Some confirmados \<Rightarrow>
                     (case map_of dados ''DESCARTADOS'' of
                        None \<Rightarrow> (Inl (KeyError ''DESCARTADOS''), st1)
                      | Some descartados \<Rightarrow>
                          (case map_of dados ''SUSPEITOS'' of
                             None \<Rightarrow> (Inl (KeyError ''SUSPEITOS''), st1)
                           | Some suspeitos \<Rightarrow>
                               (let st2 = print Realizando_limpeza_dos_dados st1
                                in case reconciliar parse confirmados descartados suspeitos of
                                     Inl e \<Rightarrow> (Inl e, st2)
                                   | Inr combinado \<Rightarrow>
                                       (Inr \<lparr>registros = combinado, teste_booleano = True\<rparr>,
                                        st2\<lparr>pasta := AList.update (base_de_testes data)
                                               (Base_de_testes combinado) (pasta st2)\<rparr>)))))))"

text \<open>Lines 322-325: the branch that loads the cache file.\<close>

definition carregar_base :: "string \<Rightarrow> estado \<Rightarrow> (erro + base) \<times> estado" where
  "carregar_base data st =
     (let st1 = print Carregando_base_de_dados st
      in case map_of (pasta st1) (base_de_testes data) of
           Some (Base_de_testes combinado) \<Rightarrow>
             (Inr \<lparr>registros = combinado, teste_booleano = (combinado \<noteq> [])\<rparr>, st1)
         | _ \<Rightarrow> (Inl ParserError, st1))"

text \<open>
  Lines 327-328. With a boolean column \<open>TESTE\<close>, line 327 keeps the rows where it is
  true and line 328 indexes them by the notification date. With an object column (the
  table read back from a cache file of the header alone), line 327 selects columns, none
  of them, and line 328 raises KeyError on the date column.
\<close>

definition registros_testados :: "base \<Rightarrow> erro + timestamp registro list" where
  "registros_testados b =
     (if teste_booleano b then Inr (filter teste (registros b))
      else Inl (KeyError ''DATA DA NOTIFICACAO''))"

text \<open>Lines 231-337, after the arguments are parsed and the directory is entered.\<close>

definition main :: "(string \<Rightarrow> timestamp option) \<Rightarrow> (grafico \<Rightarrow> erro option) \<Rightarrow> argumentos \<Rightarrow>
    estado \<Rightarrow> erro option \<times> estado" where
  "main parse desenhar args st =
     (let arquivos = glob_banco (pasta st) in
      case arquivos of
        [] \<Rightarrow> (Some IndexError, st)
      | arquivo0 # _ \<Rightarrow>
          (let data = data_do_arquivo arquivo0 in
           case (if map_of (pasta st) (base_de_testes data) = None
                 then criar_base parse arquivos data st
                 else carregar_base data st) of
             (Inl e, st') \<Rightarrow> (Some e, st')
           | (Inr b, st') \<Rightarrow>
               (case registros_testados b of
                  Inl e \<Rightarrow> (Some e, st')
                | Inr combinado \<Rightarrow>
                    plotar_cidades desenhar combinado data (cidades args)
                      (janela args) (interativo args) st')))"

subsection \<open>The program with the tables as objects\<close>

text \<open>Lines 231-337 with the table of line 236 as the first object of the store: line
  327 and line 328 each bind \<open>combinado\<close> to a new table, and the batch runs on the last.\<close>

definition main_ref :: "(string \<Rightarrow> timestamp option) \<Rightarrow> (grafico \<Rightarrow> erro option) \<Rightarrow> argumentos \<Rightarrow>
    estado \<Rightarrow> erro option \<times> objetos \<times> estado" where
  "main_ref parse desenhar args st =
     (let arquivos = glob_banco (pasta st) in
      case arquivos of
        [] \<Rightarrow> (Some IndexError, [], st)
      | arquivo0 # _ \<Rightarrow>
          (let data = data_do_arquivo arquivo0 in
           case (if map_of (pasta st) (base_de_testes data) = None
                 then criar_base parse arquivos data st
                 else carregar_base data st) of
             (Inl e, st') \<Rightarrow> (Some e, [], st')
           | (Inr b, st') \<Rightarrow>
               (let h = [registros b]; combinado = 0 in
                if teste_booleano b then
                  (case getitem_mask teste combinado h of
                     (combinado, h) \<Rightarrow>
                       (case set_index combinado h of
                          (combinado, h) \<Rightarrow>
                            plotar_cidades_ref desenhar combinado data (cidades args)
                              (janela args) (interativo args) (h, st')))
                else (Some (KeyError ''DATA DA NOTIFICACAO''), h, st'))))"


section \<open>Notions used in the statements\<close>

text \<open>
  The specification's rule for one row of the concatenated table, to compare the
  reconciler with: a row with a null notification date is dropped, a row whose date
  parses to a year before 2020 is dropped, and any other row is kept with its date parsed.
\<close>

definition manter :: "(string \<Rightarrow> timestamp option) \<Rightarrow> string registro \<Rightarrow> timestamp registro option" where
  "manter parse r =
     (case data_da_notificacao r of
        None \<Rightarrow> None
      | Some s \<Rightarrow>
          (case parse s of
             None \<Rightarrow> None
           | Some t \<Rightarrow> if 2020 \<le> year t then Some (com_data (Some t) r) else None))"

text \<open>
  Two states of the world that differ at most in the raw files: the same lines printed,
  the same figures shown, and the same content under every name that line 231 does not
  match.
\<close>

definition mesmo_fora_dos_brutos :: "estado \<Rightarrow> estado \<Rightarrow> bool" where
  "mesmo_fora_dos_brutos s1 s2 =
     (stdout s1 = stdout s2 \<and> janelas s1 = janelas s2 \<and>
      (\<forall>n. \<not> prefix ''Banco Estadual COVID-19'' n \<longrightarrow> map_of (pasta s1) n = map_of (pasta s2) n))"

section \<open>Example inputs\<close>

definition linha_exemplo :: "string option \<Rightarrow> string option \<Rightarrow> string option \<Rightarrow> linha" where
  "linha_exemplo d tipo estado =
     \<lparr>DATA_DA_NOTIFICACAO = d, MUNICIPIO_DE_RESIDENCIA = Some ''ITABUNA'',
      DATA_DA_COLETA_DO_TESTE = None, TIPO_DE_TESTE = tipo, RESULTADO_DO_TESTE = None,
      ESTADO_DO_TESTE = estado\<rparr>"

definition registro_exemplo :: "int \<Rightarrow> string \<Rightarrow> string \<Rightarrow> timestamp registro" where
  "registro_exemplo d cidade f =
     \<lparr>data_da_notificacao = Some (Timestamp 2020 3 d), municipio_de_residencia = Some cidade,
      teste = True, fonte = f, data_da_coleta_do_teste = None\<rparr>"

text \<open>Tested rows of three days of March 2020 (ordinals 737485 to 737487): three, two
  and four rows, of which two, none and two are confirmed.\<close>

definition tabela_exemplo :: "timestamp registro list" where
  "tabela_exemplo =
     [registro_exemplo 1 ''ITABUNA'' ''CONFIRMADOS'',
      registro_exemplo 1 ''ITABUNA'' ''CONFIRMADOS'',
      registro_exemplo 1 ''ITABUNA'' ''DESCARTADOS'',
      registro_exemplo 2 ''ILHEUS'' ''DESCARTADOS'',
      registro_exemplo 2 ''ILHEUS'' ''SUSPEITOS'',
      registro_exemplo 3 ''ITABUNA'' ''CONFIRMADOS'',
      registro_exemplo 3 ''ITABUNA'' ''CONFIRMADOS'',
      registro_exemplo 3 ''ITABUNA'' ''DESCARTADOS'',
      registro_exemplo 3 ''ITABUNA'' ''SUSPEITOS'']"

definition estado_exemplo :: "(string \<times> arquivo) list \<Rightarrow> estado" where
  "estado_exemplo p = \<lparr>pasta = p, stdout = [], janelas = []\<rparr>"

definition pasta_com_base :: "linha list \<Rightarrow> timestamp registro list \<Rightarrow> (string \<times> arquivo) list" where
  "pasta_com_base brutos tab =
     [(''Banco Estadual COVID-19 CONFIRMADOS_2020-08-01.csv'', Tabela_bruta brutos),
      (''base-de-testes_2020-08-01.csv'', Base_de_testes tab)]"

definition args_exemplo :: "string list \<Rightarrow> argumentos" where
  "args_exemplo cs = \<lparr>cidades = cs, janela = 1, interativo = True\<rparr>"

section \<open>The tested flag\<close>

lemma teste_selecionar: "teste (selecionar f t r) = t"
  by (simp add: selecionar_def)

lemma teste_suspeito_iff:
  "teste_suspeito r \<longleftrightarrow>
     (TIPO_DE_TESTE r \<noteq> None \<or> DATA_DA_COLETA_DO_TESTE r \<noteq> None \<or> RESULTADO_DO_TESTE r \<noteq> None) \<and>
     ESTADO_DO_TESTE r \<noteq> Some ''EXAME NAO SOLICITADO''"
  by (simp add: teste_suspeito_def teste_por_colunas_def notnull_def split: option.splits)

text \<open>
  C1. In the concatenated table the flag \<open>TESTE\<close> is true on every row that comes from the
  confirmed table and on every row that comes from the discarded table; on a row that
  comes from the suspected table it is true exactly when one of test type, collection
  date and test result is not null and the test state is not the text
  \<open>EXAME NAO SOLICITADO\<close>, so that this state forces the flag to false whatever the
  three columns hold.
\<close>

theorem teste_da_reconciliacao:
  "map teste (combinar confirmados descartados suspeitos) =
     replicate (length confirmados) True @ replicate (length descartados) True @
     map (\<lambda>r. (TIPO_DE_TESTE r \<noteq> None \<or> DATA_DA_COLETA_DO_TESTE r \<noteq> None \<or>
                RESULTADO_DO_TESTE r \<noteq> None) \<and>
               ESTADO_DO_TESTE r \<noteq> Some ''EXAME NAO SOLICITADO'') suspeitos"
proof -
  have c: "map teste (map (selecionar f True) xs) = replicate (length xs) True" for f xs
    by (induction xs) (simp_all add: teste_selecionar)
  have s: "map teste (map (\<lambda>r. selecionar ''SUSPEITOS'' (teste_suspeito r) r) suspeitos) =
      map teste_suspeito suspeitos"
    by (simp add: teste_selecionar)
  show ?thesis
    unfolding combinar_def map_append c s
    by (simp add: teste_suspeito_iff)
qed

theorem teste_da_reconciliacao_witness:
  "map teste (combinar [linha_exemplo None None None] [linha_exemplo None None None]
     [linha_exemplo None None None,
      linha_exemplo None (Some ''RT-PCR'') None,
      linha_exemplo None (Some ''RT-PCR'') (Some ''EXAME NAO SOLICITADO''),
      linha_exemplo None (Some ''RT-PCR'') (Some ''COLETADO'')]) =
   [True, True, False, True, False, True]"
  using teste_da_reconciliacao [of "[linha_exemplo None None None]" "[linha_exemplo None None None]"
     "[linha_exemplo None None None,
      linha_exemplo None (Some ''RT-PCR'') None,
      linha_exemplo None (Some ''RT-PCR'') (Some ''EXAME NAO SOLICITADO''),
      linha_exemplo None (Some ''RT-PCR'') (Some ''COLETADO'')]"]
  by (simp add: linha_exemplo_def)

section \<open>The dates of the reconciled table\<close>

lemma to_datetime_notnull:
  "to_datetime parse (filter (\<lambda>r. notnull (data_da_notificacao r)) rs) = Inr ts \<Longrightarrow>
   filter ano_valido ts = List.map_filter (manter parse) rs"
proof (induction rs arbitrary: ts)
  case Nil
  then show ?case by (simp add: map_filter_simps)
next
  case (Cons r rs)
  show ?case
  proof (cases "data_da_notificacao r")
    case None
    with Cons show ?thesis
      by (simp add: notnull_def map_filter_simps manter_def)
  next
    case (Some s)
    with Cons.prems obtain t ts' where
      p: "parse s = Some t" and
      r: "to_datetime parse (filter (\<lambda>r. notnull (data_da_notificacao r)) rs) = Inr ts'" and
      ts: "ts = com_data (Some t) r # ts'"
      by (auto simp: notnull_def split: option.splits sum.splits)
    from Cons.IH [OF r] Some p ts show ?thesis
      by (simp add: map_filter_simps manter_def ano_valido_def com_data_def)
  qed
qed

lemma to_datetime_retorna:
  assumes "\<And>r s. r \<in> set rs \<Longrightarrow> data_da_notificacao r = Some s \<Longrightarrow> parse s \<noteq> None"
  shows "\<exists>ts. to_datetime parse rs = Inr ts"
  using assms
proof (induction rs)
  case Nil
  show ?case by simp
next
  case (Cons r rs)
  then obtain ts where ts: "to_datetime parse rs = Inr ts"
    by (meson list.set_intros(2))
  show ?case
  proof (cases "data_da_notificacao r")
    case None
    with ts show ?thesis by simp
  next
    case (Some s)
    with Cons.prems [of r s] obtain t where "parse s = Some t" by auto
    with Some ts show ?thesis by simp
  qed
qed

text \<open>The reconciler returns a table whenever the parser accepts every date text of the
  three tables.\<close>

lemma reconciliar_retorna:
  assumes "\<And>r s. r \<in> set (confirmados @ descartados @ suspeitos) \<Longrightarrow>
      DATA_DA_NOTIFICACAO r = Some s \<Longrightarrow> parse s \<noteq> None"
  shows "\<exists>combinado. reconciliar parse confirmados descartados suspeitos = Inr combinado"
proof -
  have "\<exists>ts. to_datetime parse (filter (\<lambda>r. notnull (data_da_notificacao r))
      (combinar confirmados descartados suspeitos)) = Inr ts"
  proof (rule to_datetime_retorna)
    fix r s
    assume "r \<in> set (filter (\<lambda>r. notnull (data_da_notificacao r))
        (combinar confirmados descartados suspeitos))"
      and d: "data_da_notificacao r = Some s"
    then obtain l f t where "l \<in> set (confirmados @ descartados @ suspeitos)"
      and "r = selecionar f t l"
      by (auto simp: combinar_def)
    with d assms [of l s] show "parse s \<noteq> None"
      by (simp add: selecionar_def)
  qed
  then show ?thesis
    by (auto simp: reconciliar_def Let_def)
qed

text \<open>
  C2. When the reconciler produces a table, every row of it has a notification date that
  is not null and whose year is at least 2020 (the tested flag is a boolean by its type),
  and the table is the concatenated table with exactly the rows of a null date or of a
  year before 2020 left out: the rows are dropped by the reconciler, and the reporter
  has no test on dates.
\<close>

theorem reconciliar_invariante:
  assumes "reconciliar parse confirmados descartados suspeitos = Inr combinado"
  shows "(\<forall>r \<in> set combinado. \<exists>t. data_da_notificacao r = Some t \<and> 2020 \<le> year t) \<and>
         combinado = List.map_filter (manter parse) (combinar confirmados descartados suspeitos)"
proof -
  from assms obtain ts where
    ts: "to_datetime parse (filter (\<lambda>r. notnull (data_da_notificacao r))
           (combinar confirmados descartados suspeitos)) = Inr ts" and
    c: "combinado = filter ano_valido ts"
    by (auto simp: reconciliar_def Let_def split: sum.splits)
  have "\<exists>t. data_da_notificacao r = Some t \<and> 2020 \<le> year t" if "r \<in> set combinado" for r
    using that c by (auto simp: ano_valido_def split: option.splits)
  moreover have "combinado = List.map_filter (manter parse) (combinar confirmados descartados suspeitos)"
    using to_datetime_notnull [OF ts] c by simp
  ultimately show ?thesis by blast
qed

theorem reconciliar_invariante_witness:
  "reconciliar strptime_dmy [linha_exemplo (Some ''01/03/2020'') None None, linha_exemplo None None None]
      [linha_exemplo (Some ''31/12/2019'') None None]
      [linha_exemplo (Some ''15/07/2021'') None None] =
     Inr [\<lparr>data_da_notificacao = Some (Timestamp 2020 3 1), municipio_de_residencia = Some ''ITABUNA'',
           teste = True, fonte = ''CONFIRMADOS'', data_da_coleta_do_teste = None\<rparr>,
          \<lparr>data_da_notificacao = Some (Timestamp 2021 7 15), municipio_de_residencia = Some ''ITABUNA'',
           teste = False, fonte = ''SUSPEITOS'', data_da_coleta_do_teste = None\<rparr>] \<and>
   list_all (\<lambda>r. \<exists>t. data_da_notificacao r = Some t \<and> 2020 \<le> year t)
     [\<lparr>data_da_notificacao = Some (Timestamp 2020 3 1), municipio_de_residencia = Some ''ITABUNA'',
           teste = True, fonte = ''CONFIRMADOS'', data_da_coleta_do_teste = None\<rparr>,
          \<lparr>data_da_notificacao = Some (Timestamp 2021 7 15), municipio_de_residencia = Some ''ITABUNA'',
           teste = False, fonte = ''SUSPEITOS'', data_da_coleta_do_teste = None\<rparr>]"
proof -
  have e: "reconciliar strptime_dmy [linha_exemplo (Some ''01/03/2020'') None None, linha_exemplo None None None]
      [linha_exemplo (Some ''31/12/2019'') None None]
      [linha_exemplo (Some ''15/07/2021'') None None] =
     Inr [\<lparr>data_da_notificacao = Some (Timestamp 2020 3 1), municipio_de_residencia = Some ''ITABUNA'',
           teste = True, fonte = ''CONFIRMADOS'', data_da_coleta_do_teste = None\<rparr>,
          \<lparr>data_da_notificacao = Some (Timestamp 2021 7 15), municipio_de_residencia = Some ''ITABUNA'',
           teste = False, fonte = ''SUSPEITOS'', data_da_coleta_do_teste = None\<rparr>]"
    by code_simp
  from reconciliar_invariante [OF e] show ?thesis
    unfolding list_all_iff using e by blast
qed

section \<open>The reporter\<close>

lemma plotar_filtrado_vazio:
  "plotar_filtrado desenhar [] cidade data w i st = (None, print Nenhum_registro_encontrado st)"
  by (simp add: plotar_filtrado_def)

lemma plotar_filtrado_ok:
  assumes "plotar_filtrado desenhar tab cidade data w i st = (None, st')" and "tab \<noteq> []"
  shows "\<exists>fig. total_de_testes fig = length tab \<and> title fig = titulo cidade data \<and>
           desenhar fig = None \<and>
           st' = (if i then st\<lparr>janelas := janelas st @ [fig]\<rparr>
                  else st\<lparr>pasta := AList.update (nome_do_plot cidade data) (Imagem fig) (pasta st)\<rparr>)"
proof -
  from assms obtain tests confirmado ratio where
    s: "series_do_grafico w tab = Inr (tests, confirmado, ratio)"
    by (auto simp: plotar_filtrado_def Let_def split: sum.splits)
  define fig where "fig = \<lparr>title = titulo cidade data,
      area_tests = filter (\<lambda>(d, x). 1 < x) tests,
      area_confirmado = filter (\<lambda>(d, x). 1 < x) confirmado,
      plot_ratio = ratio, total_de_testes = length tab\<rparr>"
  from assms s have d: "desenhar fig = None"
    by (auto simp: plotar_filtrado_def Let_def fig_def split: option.splits)
  from assms s d have "st' = (if i then st\<lparr>janelas := janelas st @ [fig]\<rparr>
      else st\<lparr>pasta := AList.update (nome_do_plot cidade data) (Imagem fig) (pasta st)\<rparr>)"
    by (auto simp: plotar_filtrado_def Let_def fig_def split: if_splits)
  with d show ?thesis
    by (intro exI [of _ fig]) (simp add: fig_def)
qed

text \<open>
  C7. For the name \<open>BAHIA\<close> the reporter works on all the rows it is given; for any other
  name it works on exactly the rows whose city equals the name as a text (so case
  matters, and a null city equals no name). N is the number of these rows: when a call
  returns, it has only printed the diagnostic if N is 0, and otherwise the figure it has
  shown or saved carries N as the total of tests.
\<close>

theorem filtro_da_cidade:
  "filtrar_cidade ''BAHIA'' combinado = combinado \<and>
   (cidade \<noteq> ''BAHIA'' \<longrightarrow>
      filtrar_cidade cidade combinado =
        filter (\<lambda>r. municipio_de_residencia r = Some cidade) combinado) \<and>
   (plotar_testes_por_cidade desenhar combinado cidade data w i st = (None, st') \<longrightarrow>
      (if length (filtrar_cidade cidade combinado) = 0
       then st' = print Nenhum_registro_encontrado st
       else \<exists>fig. total_de_testes fig = length (filtrar_cidade cidade combinado) \<and>
              st' = (if i then st\<lparr>janelas := janelas st @ [fig]\<rparr>
                     else st\<lparr>pasta := AList.update (nome_do_plot cidade data) (Imagem fig)
                                        (pasta st)\<rparr>)))"
proof (intro conjI impI)
  show "filtrar_cidade ''BAHIA'' combinado = combinado"
    by (simp add: filtrar_cidade_def)
next
  assume "cidade \<noteq> ''BAHIA''"
  then show "filtrar_cidade cidade combinado =
      filter (\<lambda>r. municipio_de_residencia r = Some cidade) combinado"
    by (simp add: filtrar_cidade_def)
next
  assume p: "plotar_testes_por_cidade desenhar combinado cidade data w i st = (None, st')"
  show "if length (filtrar_cidade cidade combinado) = 0
       then st' = print Nenhum_registro_encontrado st
       else \<exists>fig. total_de_testes fig = length (filtrar_cidade cidade combinado) \<and>
              st' = (if i then st\<lparr>janelas := janelas st @ [fig]\<rparr>
                     else st\<lparr>pasta := AList.update (nome_do_plot cidade data) (Imagem fig)
                                        (pasta st)\<rparr>)"
  proof (cases "filtrar_cidade cidade combinado = []")
    case True
    with p show ?thesis
      by (simp add: plotar_testes_por_cidade_def plotar_filtrado_vazio)
  next
    case False
    from p have "plotar_filtrado desenhar (filtrar_cidade cidade combinado) cidade data w i st = (None, st')"
      by (simp add: plotar_testes_por_cidade_def)
    from plotar_filtrado_ok [OF this False] False show ?thesis
      by auto
  qed
qed

theorem filtro_da_cidade_witness:
  "filtrar_cidade ''BAHIA'' tabela_exemplo = tabela_exemplo \<and>
   filtrar_cidade ''ILHEUS'' tabela_exemplo =
     [registro_exemplo 2 ''ILHEUS'' ''DESCARTADOS'', registro_exemplo 2 ''ILHEUS'' ''SUSPEITOS''] \<and>
   (\<exists>fig. total_de_testes fig = 2 \<and>
      plotar_testes_por_cidade (\<lambda>_. None) tabela_exemplo ''ILHEUS'' ''2020-08-01'' 1 True
        (estado_exemplo []) = (None, \<lparr>pasta = [], stdout = [], janelas = [fig]\<rparr>))"
proof -
  let ?p = "plotar_testes_por_cidade (\<lambda>_. None) tabela_exemplo ''ILHEUS'' ''2020-08-01'' 1 True
      (estado_exemplo [])"
  have f: "filtrar_cidade ''ILHEUS'' tabela_exemplo =
      [registro_exemplo 2 ''ILHEUS'' ''DESCARTADOS'', registro_exemplo 2 ''ILHEUS'' ''SUSPEITOS'']"
    by (simp add: filtrar_cidade_def tabela_exemplo_def registro_exemplo_def)
  have n: "''ILHEUS'' \<noteq> ''BAHIA''" by simp
  have "fst ?p = None" by code_simp
  then have p: "?p = (None, snd ?p)" by (simp add: prod_eq_iff)
  have l: "length (filtrar_cidade ''ILHEUS'' tabela_exemplo) = 2" by (simp add: f)
  note t = filtro_da_cidade [of tabela_exemplo "''ILHEUS''" "\<lambda>_. None" "''2020-08-01''" 1 True
      "estado_exemplo []" "snd ?p"]
  from t [THEN conjunct2, THEN conjunct2, THEN mp, OF p] l
  have "\<exists>fig. total_de_testes fig = 2 \<and>
      snd ?p = (estado_exemplo [])\<lparr>janelas := janelas (estado_exemplo []) @ [fig]\<rparr>"
    by simp
  then obtain fig where "total_de_testes fig = 2"
    and "snd ?p = \<lparr>pasta = [], stdout = [], janelas = [fig]\<rparr>"
    by (auto simp: estado_exemplo_def)
  with p have "total_de_testes fig = 2 \<and> ?p = (None, \<lparr>pasta = [], stdout = [], janelas = [fig]\<rparr>)"
    by simp
  then have "\<exists>fig. total_de_testes fig = 2 \<and>
      ?p = (None, \<lparr>pasta = [], stdout = [], janelas = [fig]\<rparr>)" ..
  with t [THEN conjunct1] f show ?thesis
    by simp
qed

text \<open>
  C4. When no row is left for a requested city, the reporter raises nothing, prints the
  diagnostic line and neither saves nor shows a figure; the batch then goes on with the
  remaining cities, in their order, from the state in which only the line that announces
  the city and the diagnostic have been printed.
\<close>

theorem cidade_sem_registros:
  assumes "length (filtrar_cidade cidade combinado) = 0"
  shows "plotar_testes_por_cidade desenhar combinado cidade data w i st =
           (None, print Nenhum_registro_encontrado st) \<and>
         pasta (print Nenhum_registro_encontrado st) = pasta st \<and>
         janelas (print Nenhum_registro_encontrado st) = janelas st \<and>
         plotar_cidades desenhar combinado data (cidade # resto) w i st =
           plotar_cidades desenhar combinado data resto w i
             (print Nenhum_registro_encontrado (print (Plotando_graficos_para_a_cidade cidade) st))"
proof -
  from assms have e: "filtrar_cidade cidade combinado = []" by simp
  have p: "plotar_testes_por_cidade desenhar combinado cidade data w i s =
      (None, print Nenhum_registro_encontrado s)" for s
    by (simp add: plotar_testes_por_cidade_def e plotar_filtrado_vazio)
  show ?thesis
    by (simp add: p) (simp add: print_def)
qed

theorem cidade_sem_registros_witness:
  "length (filtrar_cidade ''SALVADOR'' tabela_exemplo) = 0 \<and>
   plotar_testes_por_cidade (\<lambda>_. None) tabela_exemplo ''SALVADOR'' ''2020-08-01'' 1 False
       (estado_exemplo []) =
     (None, \<lparr>pasta = [], stdout = [Nenhum_registro_encontrado], janelas = []\<rparr>) \<and>
   plotar_cidades (\<lambda>_. None) tabela_exemplo ''2020-08-01'' [''SALVADOR'', ''ILHEUS''] 1 False
       (estado_exemplo []) =
     plotar_cidades (\<lambda>_. None) tabela_exemplo ''2020-08-01'' [''ILHEUS''] 1 False
       \<lparr>pasta = [],
        stdout = [Plotando_graficos_para_a_cidade ''SALVADOR'', Nenhum_registro_encontrado],
        janelas = []\<rparr>"
proof -
  have h: "length (filtrar_cidade ''SALVADOR'' tabela_exemplo) = 0"
    by (simp add: filtrar_cidade_def tabela_exemplo_def registro_exemplo_def)
  from cidade_sem_registros [OF h, of "\<lambda>_. None" "''2020-08-01''" 1 False "estado_exemplo []"
      "[''ILHEUS'']"] h
  show ?thesis
    by (simp add: print_def estado_exemplo_def)
qed

section \<open>The daily series\<close>

lemma dias_Cons:
  "dias (r # tab) = (case data_da_notificacao r of None \<Rightarrow> dias tab | Some t \<Rightarrow> toordinal t # dias tab)"
  by (simp add: dias_def map_filter_simps split: option.splits)

lemma count_dias_filter: "count_list (dias (filter P tab)) d \<le> count_list (dias tab) d"
  by (induction tab) (auto simp: dias_Cons dias_def map_filter_simps split: option.splits)

lemma set_dias_filter: "set (dias (filter P tab)) \<subseteq> set (dias tab)"
  by (induction tab) (auto simp: dias_Cons dias_def map_filter_simps split: option.splits)

lemma resample_count_iff:
  "(d, c) \<in> set (resample_count tab) \<longleftrightarrow>
     dias tab \<noteq> [] \<and> Min (set (dias tab)) \<le> d \<and> d \<le> Max (set (dias tab)) \<and>
     c = contagem_do_dia tab d"
  by (auto simp: resample_count_def)

text \<open>
  C6. On every day the number of rows of source \<open>CONFIRMADOS\<close> is at most the number of
  all rows of the table the reporter works on (in the program, tested rows only), and
  every entry of the daily series of the confirmed rows is bounded by the entry of the
  same day in the daily series of all rows, before any rolling.
\<close>

theorem confirmados_no_maximo_testes:
  "contagem_do_dia (filter (\<lambda>r. fonte r = ''CONFIRMADOS'') tab) d \<le> contagem_do_dia tab d \<and>
   ((d, c) \<in> set (resample_count (filter (\<lambda>r. fonte r = ''CONFIRMADOS'') tab)) \<longrightarrow>
      (\<exists>t. (d, t) \<in> set (resample_count tab) \<and> c \<le> t))"
proof (intro conjI impI)
  let ?conf = "filter (\<lambda>r. fonte r = ''CONFIRMADOS'') tab"
  show le: "contagem_do_dia ?conf d \<le> contagem_do_dia tab d"
    by (simp add: contagem_do_dia_def count_dias_filter)
  assume "(d, c) \<in> set (resample_count ?conf)"
  then have ne: "dias ?conf \<noteq> []" and lo: "Min (set (dias ?conf)) \<le> d"
    and hi: "d \<le> Max (set (dias ?conf))" and c: "c = contagem_do_dia ?conf d"
    by (simp_all add: resample_count_iff)
  have sub: "set (dias ?conf) \<subseteq> set (dias tab)"
    by (rule set_dias_filter)
  with ne have ne': "dias tab \<noteq> []" by auto
  from ne sub have "Min (set (dias tab)) \<le> Min (set (dias ?conf))"
    by (intro Min_antimono) simp_all
  moreover from ne sub have "Max (set (dias ?conf)) \<le> Max (set (dias tab))"
    by (intro Max_mono) simp_all
  ultimately have "(d, contagem_do_dia tab d) \<in> set (resample_count tab)"
    using lo hi ne' by (simp add: resample_count_iff)
  with le c show "\<exists>t. (d, t) \<in> set (resample_count tab) \<and> c \<le> t"
    by blast
qed

theorem confirmados_no_maximo_testes_witness:
  "contagem_do_dia (filter (\<lambda>r. fonte r = ''CONFIRMADOS'') tabela_exemplo) 737487
     \<le> contagem_do_dia tabela_exemplo 737487 \<and>
   resample_count (filter (\<lambda>r. fonte r = ''CONFIRMADOS'') tabela_exemplo) =
     [(737485, 2), (737486, 0), (737487, 2)] \<and>
   (\<exists>t. (737487, t) \<in> set (resample_count tabela_exemplo) \<and> 2 \<le> t)"
proof -
  have r: "resample_count (filter (\<lambda>r. fonte r = ''CONFIRMADOS'') tabela_exemplo) =
      [(737485, 2), (737486, 0), (737487, 2)]"
    by code_simp
  from confirmados_no_maximo_testes [of tabela_exemplo 737487 2] r show ?thesis
    by simp
qed

lemma keys_resample_count: "distinct (map fst (resample_count tab))"
  by (simp add: resample_count_def comp_def)

lemma keys_rolling_mean: "rolling_mean w s = Inr r \<Longrightarrow> map fst r = map fst s"
  by (auto simp: rolling_mean_def comp_def map_nth split: if_splits intro: nth_equalityI)

lemma set_maior_que_1: "(d, x) \<in> set (maior_que_1 s) \<longleftrightarrow> (d, Some x) \<in> set s \<and> 1 < x"
  by (induction s) (auto simp: maior_que_1_def split: option.splits if_splits)

lemma keys_maior_que_1:
  assumes "distinct (map fst s)" and "(d, v) \<in> set s"
  shows "d \<in> fst ` set (maior_que_1 s) \<longleftrightarrow> (\<exists>x. v = Some x \<and> 1 < x)"
proof
  assume "d \<in> fst ` set (maior_que_1 s)"
  then obtain x where "(d, x) \<in> set (maior_que_1 s)" by auto
  then have "(d, Some x) \<in> set s" and x: "1 < x" by (simp_all add: set_maior_que_1)
  with assms have "v = Some x" by (meson eq_key_imp_eq_value)
  with x show "\<exists>x. v = Some x \<and> 1 < x" by blast
next
  assume "\<exists>x. v = Some x \<and> 1 < x"
  then obtain x where "v = Some x" and "1 < x" by blast
  with assms(2) have "(d, x) \<in> set (maior_que_1 s)" by (simp add: set_maior_que_1)
  then show "d \<in> fst ` set (maior_que_1 s)" by force
qed

lemma map_of_dividir:
  "map_of (dividir a b) d =
     (case (map_of a d, map_of b d) of
        (Some x, Some y) \<Rightarrow> Some (Some (x / y))
      | (None, None) \<Rightarrow> None
      | _ \<Rightarrow> Some None)"
proof -
  have "map_of (dividir a b) d =
      (if d \<in> fst ` set a \<union> fst ` set b
       then Some (case (map_of a d, map_of b d) of (Some x, Some y) \<Rightarrow> Some (x / y) | _ \<Rightarrow> None)
       else None)"
    by (simp add: dividir_def map_of_map_restrict restrict_map_def)
  moreover have "d \<in> fst ` set a \<longleftrightarrow> map_of a d \<noteq> None" for a :: "(int \<times> rat) list"
    by (simp add: map_of_eq_None_iff)
  ultimately show ?thesis
    by (auto split: option.splits)
qed

text \<open>
  C5. When lines 158-164 return their three series, the tested and the confirmed series
  are the rolled series filtered by the same function: a day of a rolled series stays
  exactly when its rolled value is there and greater than 1, so every day of a value at
  most 1 is gone. The ratio series has the quotient confirmed/tested on the days that
  both filtered series have, a missing value (and not 0) on a day that only one of them
  has, and no entry elsewhere.
\<close>

theorem filtro_e_razao:
  assumes "series_do_grafico w tab = Inr (tests, confirmado, ratio)"
  shows "\<exists>rt rc.
           rolling_mean w (resample_count tab) = Inr rt \<and>
           rolling_mean w (resample_count (filter (\<lambda>r. fonte r = ''CONFIRMADOS'') tab)) = Inr rc \<and>
           tests = maior_que_1 rt \<and> confirmado = maior_que_1 rc \<and>
           (\<forall>d v. (d, v) \<in> set rt \<longrightarrow> (d \<in> fst ` set tests \<longleftrightarrow> (\<exists>x. v = Some x \<and> 1 < x))) \<and>
           (\<forall>d v. (d, v) \<in> set rc \<longrightarrow> (d \<in> fst ` set confirmado \<longleftrightarrow> (\<exists>x. v = Some x \<and> 1 < x))) \<and>
           (\<forall>d. map_of ratio d =
              (case (map_of confirmado d, map_of tests d) of
                 (Some c, Some t) \<Rightarrow> Some (Some (c / t))
               | (None, None) \<Rightarrow> None
               | _ \<Rightarrow> Some None))"
proof -
  from assms obtain rt rc where
    rt: "rolling_mean w (resample_count tab) = Inr rt" and
    rc: "rolling_mean w (resample_count (filter (\<lambda>r. fonte r = ''CONFIRMADOS'') tab)) = Inr rc" and
    t: "tests = maior_que_1 rt" and c: "confirmado = maior_que_1 rc" and
    r: "ratio = dividir confirmado tests"
    by (auto simp: series_do_grafico_def Let_def split: sum.splits)
  have dt: "distinct (map fst rt)"
    using keys_rolling_mean [OF rt] keys_resample_count [of tab] by simp
  have dc: "distinct (map fst rc)"
    using keys_rolling_mean [OF rc]
      keys_resample_count [of "filter (\<lambda>r. fonte r = ''CONFIRMADOS'') tab"] by simp
  have 1: "\<forall>d v. (d, v) \<in> set rt \<longrightarrow> (d \<in> fst ` set tests \<longleftrightarrow> (\<exists>x. v = Some x \<and> 1 < x))"
    unfolding t using keys_maior_que_1 [OF dt] by blast
  have 2: "\<forall>d v. (d, v) \<in> set rc \<longrightarrow> (d \<in> fst ` set confirmado \<longleftrightarrow> (\<exists>x. v = Some x \<and> 1 < x))"
    unfolding c using keys_maior_que_1 [OF dc] by blast
  have 3: "\<forall>d. map_of ratio d =
              (case (map_of confirmado d, map_of tests d) of
                 (Some c, Some t) \<Rightarrow> Some (Some (c / t))
               | (None, None) \<Rightarrow> None
               | _ \<Rightarrow> Some None)"
    unfolding r by (simp add: map_of_dividir)
  from rt rc t c 1 2 3 show ?thesis by blast
qed

theorem filtro_e_razao_witness:
  "series_do_grafico 1 tabela_exemplo =
     Inr ([(737485, 3), (737486, 2), (737487, 4)], [(737485, 2), (737487, 2)],
          [(737485, Some (2 / 3)), (737486, None), (737487, Some (1 / 2))]) \<and>
   map_of [(737485 :: int, Some (2 / 3)), (737486, None), (737487, Some (1 / 2 :: rat))] 737486 =
     Some None \<and>
   map_of [(737485 :: int, Some (2 / 3)), (737486, None), (737487, Some (1 / 2 :: rat))] 737485 =
     Some (Some (2 / 3)) \<and>
   map_of [(737485 :: int, Some (2 / 3)), (737486, None), (737487, Some (1 / 2 :: rat))] 737484 =
     None"
proof -
  let ?tests = "[(737485, 3), (737486, 2), (737487, 4)] :: (int \<times> rat) list"
  let ?conf = "[(737485, 2), (737487, 2)] :: (int \<times> rat) list"
  let ?ratio = "[(737485, Some (2 / 3)), (737486, None), (737487, Some (1 / 2))] :: (int \<times> rat option) list"
  have e: "series_do_grafico 1 tabela_exemplo = Inr (?tests, ?conf, ?ratio)"
    by code_simp
  from filtro_e_razao [OF e] have m: "map_of ?ratio d =
      (case (map_of ?conf d, map_of ?tests d) of
         (Some c, Some t) \<Rightarrow> Some (Some (c / t))
       | (None, None) \<Rightarrow> None
       | _ \<Rightarrow> Some None)" for d
    by blast
  have "map_of ?ratio 737486 = Some None"
    unfolding m [of 737486] by simp
  moreover have "map_of ?ratio 737485 = Some (Some (2 / 3))"
    unfolding m [of 737485] by simp
  moreover have "map_of ?ratio 737484 = None"
    unfolding m [of 737484] by simp
  ultimately show ?thesis using e by blast
qed

section \<open>The cache file\<close>

lemma base_nao_e_plot: "base_de_testes d \<noteq> nome_do_plot c e"
  by (simp add: base_de_testes_def nome_do_plot_def)

lemma plotar_filtrado_outros:
  assumes "\<And>c e. n \<noteq> nome_do_plot c e"
  shows "map_of (pasta (snd (plotar_filtrado desenhar tab cidade data w i st))) n = map_of (pasta st) n"
  using assms [of cidade data]
  by (auto simp: plotar_filtrado_def Let_def print_def update_conv'
      split: sum.splits prod.splits option.splits)

lemma plotar_cidades_outros:
  assumes "\<And>c e. n \<noteq> nome_do_plot c e"
  shows "map_of (pasta (snd (plotar_cidades desenhar tab data cs w i st))) n = map_of (pasta st) n"
proof (induction cs arbitrary: st)
  case Nil
  show ?case by simp
next
  case (Cons c cs)
  obtain e st' where p: "plotar_testes_por_cidade desenhar tab c data w i
      (print (Plotando_graficos_para_a_cidade c) st) = (e, st')"
    by (cases "plotar_testes_por_cidade desenhar tab c data w i
      (print (Plotando_graficos_para_a_cidade c) st)")
  have "map_of (pasta st') n = map_of (pasta (print (Plotando_graficos_para_a_cidade c) st)) n"
    using plotar_filtrado_outros [OF assms, of desenhar "filtrar_cidade c tab" c data w i
        "print (Plotando_graficos_para_a_cidade c) st"] p
    by (simp add: plotar_testes_por_cidade_def)
  then have s: "map_of (pasta st') n = map_of (pasta st) n"
    by (simp add: print_def)
  show ?case
  proof (cases e)
    case None
    with p Cons.IH [of st'] s show ?thesis by simp
  next
    case (Some x)
    with p s show ?thesis by simp
  qed
qed

lemma plotar_filtrado_mesmo:
  assumes "mesmo_fora_dos_brutos s1 s2"
  shows "fst (plotar_filtrado desenhar tab cidade data w i s1) =
           fst (plotar_filtrado desenhar tab cidade data w i s2) \<and>
         mesmo_fora_dos_brutos (snd (plotar_filtrado desenhar tab cidade data w i s1))
           (snd (plotar_filtrado desenhar tab cidade data w i s2))"
  using assms
  by (auto simp: plotar_filtrado_def Let_def print_def update_conv' mesmo_fora_dos_brutos_def
      split: sum.splits prod.splits option.splits)

lemma plotar_cidades_mesmo:
  assumes "mesmo_fora_dos_brutos s1 s2"
  shows "fst (plotar_cidades desenhar tab data cs w i s1) =
           fst (plotar_cidades desenhar tab data cs w i s2) \<and>
         mesmo_fora_dos_brutos (snd (plotar_cidades desenhar tab data cs w i s1))
           (snd (plotar_cidades desenhar tab data cs w i s2))"
  using assms
proof (induction cs arbitrary: s1 s2)
  case Nil
  then show ?case by simp
next
  case (Cons c cs)
  let ?p1 = "plotar_testes_por_cidade desenhar tab c data w i
      (print (Plotando_graficos_para_a_cidade c) s1)"
  let ?p2 = "plotar_testes_por_cidade desenhar tab c data w i
      (print (Plotando_graficos_para_a_cidade c) s2)"
  from Cons.prems have "mesmo_fora_dos_brutos (print (Plotando_graficos_para_a_cidade c) s1)
      (print (Plotando_graficos_para_a_cidade c) s2)"
    by (simp add: mesmo_fora_dos_brutos_def print_def)
  from plotar_filtrado_mesmo [OF this, of desenhar "filtrar_cidade c tab" c data w i]
  have f: "fst ?p1 = fst ?p2" and m: "mesmo_fora_dos_brutos (snd ?p1) (snd ?p2)"
    by (simp_all add: plotar_testes_por_cidade_def)
  show ?case
  proof (cases "fst ?p1")
    case None
    with f have "fst ?p2 = None" by simp
    with None Cons.IH [OF m] show ?thesis
      by (simp add: case_prod_beta)
  next
    case (Some e)
    with f have "fst ?p2 = Some e" by simp
    with Some m show ?thesis
      by (simp add: case_prod_beta)
  qed
qed

lemma main_com_base:
  assumes "glob_banco (pasta st) = arquivo0 # resto"
    and "map_of (pasta st) (base_de_testes (data_do_arquivo arquivo0)) = Some (Base_de_testes tab)"
  shows "main parse desenhar args st =
     (if tab = [] then (Some (KeyError ''DATA DA NOTIFICACAO''), print Carregando_base_de_dados st)
      else plotar_cidades desenhar (filter teste tab) (data_do_arquivo arquivo0) (cidades args)
             (janela args) (interativo args) (print Carregando_base_de_dados st))"
  using assms
  by (simp add: main_def carregar_base_def registros_testados_def Let_def print_def)

text \<open>
  C3. When the cache file of the extraction date exists, a run reads no raw file and
  reconciles nothing: after one line printed it is the batch of reports on the tested
  rows of the cached table or, when the cached table has no row, the KeyError of line
  328. The cache file holds the same table after the run. A second world with the same
  matching names and the same content everywhere but in the raw files gives the same
  outcome: the same error or none, the same lines, the same figures shown and the same
  files other than the raw ones.
\<close>

theorem base_existente:
  assumes g: "glob_banco (pasta st) = arquivo0 # resto"
    and c: "map_of (pasta st) (base_de_testes (data_do_arquivo arquivo0)) = Some (Base_de_testes tab)"
  shows "main parse desenhar args st =
           (if tab = []
            then (Some (KeyError ''DATA DA NOTIFICACAO''), print Carregando_base_de_dados st)
            else plotar_cidades desenhar (filter teste tab) (data_do_arquivo arquivo0)
                   (cidades args) (janela args) (interativo args)
                   (print Carregando_base_de_dados st)) \<and>
         map_of (pasta (snd (main parse desenhar args st))) (base_de_testes (data_do_arquivo arquivo0)) =
           Some (Base_de_testes tab) \<and>
         (\<forall>st2. glob_banco (pasta st2) = glob_banco (pasta st) \<and> mesmo_fora_dos_brutos st2 st \<longrightarrow>
            fst (main parse desenhar args st2) = fst (main parse desenhar args st) \<and>
            mesmo_fora_dos_brutos (snd (main parse desenhar args st2)) (snd (main parse desenhar args st)))"
proof (intro conjI allI impI)
  show m: "main parse desenhar args st =
      (if tab = []
       then (Some (KeyError ''DATA DA NOTIFICACAO''), print Carregando_base_de_dados st)
       else plotar_cidades desenhar (filter teste tab) (data_do_arquivo arquivo0)
              (cidades args) (janela args) (interativo args)
              (print Carregando_base_de_dados st))"
    by (rule main_com_base [OF g c])
  show "map_of (pasta (snd (main parse desenhar args st))) (base_de_testes (data_do_arquivo arquivo0)) =
      Some (Base_de_testes tab)"
    unfolding m using plotar_cidades_outros [of "base_de_testes (data_do_arquivo arquivo0)"] c
    by (simp add: base_nao_e_plot print_def)
next
  fix st2
  assume a: "glob_banco (pasta st2) = glob_banco (pasta st) \<and> mesmo_fora_dos_brutos st2 st"
  then have g2: "glob_banco (pasta st2) = arquivo0 # resto" using g by simp
  have "\<not> prefix ''Banco Estadual COVID-19'' (base_de_testes (data_do_arquivo arquivo0))"
    by (simp add: base_de_testes_def)
  with a c have c2: "map_of (pasta st2) (base_de_testes (data_do_arquivo arquivo0)) = Some (Base_de_testes tab)"
    by (simp add: mesmo_fora_dos_brutos_def)
  from a have p: "mesmo_fora_dos_brutos (print Carregando_base_de_dados st2) (print Carregando_base_de_dados st)"
    by (simp add: mesmo_fora_dos_brutos_def print_def)
  from plotar_cidades_mesmo [OF p] p
  show "fst (main parse desenhar args st2) = fst (main parse desenhar args st)"
    and "mesmo_fora_dos_brutos (snd (main parse desenhar args st2)) (snd (main parse desenhar args st))"
    using main_com_base [OF g c] main_com_base [OF g2 c2] by simp_all
qed

theorem base_existente_witness:
  "glob_banco (pasta (estado_exemplo (pasta_com_base [] tabela_exemplo))) =
     [''Banco Estadual COVID-19 CONFIRMADOS_2020-08-01.csv''] \<and>
   base_de_testes (data_do_arquivo ''Banco Estadual COVID-19 CONFIRMADOS_2020-08-01.csv'') =
     ''base-de-testes_2020-08-01.csv'' \<and>
   main strptime_dmy (\<lambda>_. None) (args_exemplo [''ILHEUS''])
       (estado_exemplo (pasta_com_base [] tabela_exemplo)) =
     plotar_cidades (\<lambda>_. None) (filter teste tabela_exemplo) ''2020-08-01'' [''ILHEUS''] 1 True
       (print Carregando_base_de_dados (estado_exemplo (pasta_com_base [] tabela_exemplo))) \<and>
   main strptime_dmy (\<lambda>_. None) (args_exemplo [''ILHEUS''])
       (estado_exemplo (pasta_com_base [] [])) =
     (Some (KeyError ''DATA DA NOTIFICACAO''),
      print Carregando_base_de_dados (estado_exemplo (pasta_com_base [] []))) \<and>
   map_of (pasta (snd (main strptime_dmy (\<lambda>_. None) (args_exemplo [''ILHEUS''])
       (estado_exemplo (pasta_com_base [] tabela_exemplo)))))
     ''base-de-testes_2020-08-01.csv'' = Some (Base_de_testes tabela_exemplo) \<and>
   mesmo_fora_dos_brutos
     (estado_exemplo (pasta_com_base [linha_exemplo (Some ''01/03/2020'') None None] tabela_exemplo))
     (estado_exemplo (pasta_com_base [] tabela_exemplo)) \<and>
   fst (main strptime_dmy (\<lambda>_. None) (args_exemplo [''ILHEUS''])
       (estado_exemplo (pasta_com_base [linha_exemplo (Some ''01/03/2020'') None None] tabela_exemplo))) =
     fst (main strptime_dmy (\<lambda>_. None) (args_exemplo [''ILHEUS''])
       (estado_exemplo (pasta_com_base [] tabela_exemplo))) \<and>
   mesmo_fora_dos_brutos
     (snd (main strptime_dmy (\<lambda>_. None) (args_exemplo [''ILHEUS''])
       (estado_exemplo (pasta_com_base [linha_exemplo (Some ''01/03/2020'') None None] tabela_exemplo))))
     (snd (main strptime_dmy (\<lambda>_. None) (args_exemplo [''ILHEUS''])
       (estado_exemplo (pasta_com_base [] tabela_exemplo))))"
proof -
  let ?a = "''Banco Estadual COVID-19 CONFIRMADOS_2020-08-01.csv''"
  let ?st = "estado_exemplo (pasta_com_base [] tabela_exemplo)"
  let ?sv = "estado_exemplo (pasta_com_base [] [])"
  let ?st2 = "estado_exemplo (pasta_com_base [linha_exemplo (Some ''01/03/2020'') None None] tabela_exemplo)"
  have g: "glob_banco (pasta (estado_exemplo (pasta_com_base b t))) = ?a # []" for b t
    by (simp add: glob_banco_def estado_exemplo_def pasta_com_base_def)
  have d: "data_do_arquivo ?a = ''2020-08-01''"
    by (simp add: data_do_arquivo_def)
  have b: "base_de_testes (data_do_arquivo ?a) = ''base-de-testes_2020-08-01.csv''"
    by (simp add: d base_de_testes_def)
  have c: "map_of (pasta (estado_exemplo (pasta_com_base [] t))) (base_de_testes (data_do_arquivo ?a)) =
      Some (Base_de_testes t)" for t
    by (simp add: b) (simp add: estado_exemplo_def pasta_com_base_def)
  have "mesmo_fora_dos_brutos
      (estado_exemplo (pasta_com_base [linha_exemplo (Some ''01/03/2020'') None None] t))
      (estado_exemplo (pasta_com_base [] t))" for t
    by (auto simp: mesmo_fora_dos_brutos_def estado_exemplo_def pasta_com_base_def)
  then have m: "mesmo_fora_dos_brutos ?st2 ?st" .
  from g have g2: "glob_banco (pasta ?st2) = glob_banco (pasta ?st)"
    by simp
  have a: "cidades (args_exemplo [''ILHEUS'']) = [''ILHEUS'']"
    "janela (args_exemplo [''ILHEUS'']) = 1" "interativo (args_exemplo [''ILHEUS'']) = True"
    by (simp_all add: args_exemplo_def)
  have n: "tabela_exemplo \<noteq> []"
    by (simp add: tabela_exemplo_def)
  note t = base_existente [OF g [of "[]" tabela_exemplo] c [of tabela_exemplo], of strptime_dmy "\<lambda>_. None" "args_exemplo [''ILHEUS'']"]
  note t0 = base_existente [OF g [of "[]" "[]"] c [of "[]"], of strptime_dmy "\<lambda>_. None" "args_exemplo [''ILHEUS'']"]
  from t [THEN conjunct1] n
  have 1: "main strptime_dmy (\<lambda>_. None) (args_exemplo [''ILHEUS'']) ?st =
      plotar_cidades (\<lambda>_. None) (filter teste tabela_exemplo) ''2020-08-01'' [''ILHEUS''] 1 True
        (print Carregando_base_de_dados ?st)"
    by (simp add: a d)
  from t0 [THEN conjunct1]
  have 0: "main strptime_dmy (\<lambda>_. None) (args_exemplo [''ILHEUS'']) ?sv =
      (Some (KeyError ''DATA DA NOTIFICACAO''), print Carregando_base_de_dados ?sv)"
    by simp
  from t [THEN conjunct2, THEN conjunct1]
  have 2: "map_of (pasta (snd (main strptime_dmy (\<lambda>_. None) (args_exemplo [''ILHEUS'']) ?st)))
      ''base-de-testes_2020-08-01.csv'' = Some (Base_de_testes tabela_exemplo)"
    by (simp only: b)
  note 3 = t [THEN conjunct2, THEN conjunct2, THEN spec, of ?st2, THEN mp, OF conjI [OF g2 m]]
  from g [of "[]" tabela_exemplo] b 1 0 2 m 3 show ?thesis
    by blast
qed

section \<open>The raw files\<close>

lemma split_sep_not_Nil: "split_sep sep s \<noteq> []"
  by (induction s) (auto split: list.splits)

text \<open>
  C9. When no name of the directory matches line 231, the run ends with IndexError at
  line 232, whatever else the directory holds (a cache file included), with nothing
  printed and nothing written; hence a run that ends with the exit message of line 239
  had at least one matching file.
\<close>

theorem sem_arquivos_IndexError:
  "(glob_banco (pasta st) = [] \<longrightarrow> main parse desenhar args st = (Some IndexError, st)) \<and>
   (fst (main parse desenhar args st) = Some (SystemExit m) \<longrightarrow> glob_banco (pasta st) \<noteq> [])"
  by (auto simp: main_def)

theorem sem_arquivos_IndexError_witness:
  "glob_banco (pasta (estado_exemplo
     [(''base-de-testes_2020-08-01.csv'', Base_de_testes tabela_exemplo)])) = [] \<and>
   main strptime_dmy (\<lambda>_. None) (args_exemplo [''BAHIA''])
       (estado_exemplo [(''base-de-testes_2020-08-01.csv'', Base_de_testes tabela_exemplo)]) =
     (Some IndexError,
      estado_exemplo [(''base-de-testes_2020-08-01.csv'', Base_de_testes tabela_exemplo)]) \<and>
   fst (main strptime_dmy (\<lambda>_. None) (args_exemplo [''BAHIA''])
       (estado_exemplo [(''Banco Estadual COVID-19 CONFIRMADOS_2020-08-01.csv'', Tabela_bruta [])])) =
     Some (SystemExit Numero_de_arquivos_diferente_de_3) \<and>
   glob_banco (pasta (estado_exemplo
     [(''Banco Estadual COVID-19 CONFIRMADOS_2020-08-01.csv'', Tabela_bruta [])])) \<noteq> []"
proof -
  let ?s1 = "estado_exemplo [(''base-de-testes_2020-08-01.csv'', Base_de_testes tabela_exemplo)]"
  let ?s2 = "estado_exemplo [(''Banco Estadual COVID-19 CONFIRMADOS_2020-08-01.csv'', Tabela_bruta [])]"
  have g: "glob_banco (pasta ?s1) = []"
    by (simp add: glob_banco_def estado_exemplo_def)
  have e: "fst (main strptime_dmy (\<lambda>_. None) (args_exemplo [''BAHIA'']) ?s2) =
      Some (SystemExit Numero_de_arquivos_diferente_de_3)"
    by code_simp
  from sem_arquivos_IndexError [of ?s1 strptime_dmy "\<lambda>_. None" "args_exemplo [''BAHIA'']"] g
  have 1: "main strptime_dmy (\<lambda>_. None) (args_exemplo [''BAHIA'']) ?s1 = (Some IndexError, ?s1)"
    by blast
  from sem_arquivos_IndexError [of ?s2 strptime_dmy "\<lambda>_. None" "args_exemplo [''BAHIA'']"
      Numero_de_arquivos_diferente_de_3] e
  have 2: "glob_banco (pasta ?s2) \<noteq> []"
    by blast
  from g 1 e 2 show ?thesis by blast
qed

lemma arquivos_diferente_de_3:
  assumes "glob_banco (pasta st) = arquivo0 # resto" and "length (arquivo0 # resto) \<noteq> 3"
    and "map_of (pasta st) (base_de_testes (data_do_arquivo arquivo0)) = None"
  shows "main parse desenhar args st = (Some (SystemExit Numero_de_arquivos_diferente_de_3), st)"
  using assms by (simp add: main_def criar_base_def)

text \<open>
  C8. In a directory without any file, no cache file exists and the number of raw files
  is 0, which is not three; the run ends with IndexError at line 232 and not with the
  exit message of line 239, which is what a run gives when at least one raw file is
  there (\<open>arquivos_diferente_de_3\<close>).
\<close>

theorem pasta_vazia_IndexError:
  "length (glob_banco []) = 0 \<and>
   map_of (pasta \<lparr>pasta = [], stdout = [], janelas = []\<rparr>) (base_de_testes data) = None \<and>
   main parse desenhar args \<lparr>pasta = [], stdout = [], janelas = []\<rparr> =
     (Some IndexError, \<lparr>pasta = [], stdout = [], janelas = []\<rparr>)"
  by (simp add: main_def glob_banco_def)

section \<open>The table as an object\<close>

lemma plotar_ref_pura:
  assumes "a < length h"
  shows "\<exists>e h' st'. plotar_testes_por_cidade_ref desenhar a cidade data w i (h, st) = (e, h', st') \<and>
           take (length h) h' = h \<and> h' ! a = h ! a \<and>
           plotar_testes_por_cidade desenhar (h ! a) cidade data w i st = (e, st')"
  using assms
  by (auto simp: plotar_testes_por_cidade_ref_def plotar_testes_por_cidade_def plotar_filtrado_def
      series_do_grafico_def filtrar_cidade_def getitem_mask_def Let_def nth_append
      split: sum.splits option.splits)

lemma plotar_cidades_ref_pura:
  assumes "a < length h"
  shows "\<exists>e h' st'. plotar_cidades_ref desenhar a data cs w i (h, st) = (e, h', st') \<and>
           take (length h) h' = h \<and> h' ! a = h ! a \<and>
           plotar_cidades desenhar (h ! a) data cs w i st = (e, st')"
  using assms
proof (induction cs arbitrary: h st)
  case Nil
  then show ?case by simp
next
  case (Cons c cs)
  from plotar_ref_pura [OF Cons.prems, of desenhar c data w i "print (Plotando_graficos_para_a_cidade c) st"]
  obtain e h1 st1 where
    r: "plotar_testes_por_cidade_ref desenhar a c data w i
          (h, print (Plotando_graficos_para_a_cidade c) st) = (e, h1, st1)" and
    t: "take (length h) h1 = h" and n: "h1 ! a = h ! a" and
    p: "plotar_testes_por_cidade desenhar (h ! a) c data w i
          (print (Plotando_graficos_para_a_cidade c) st) = (e, st1)"
    by blast
  from arg_cong [OF t, of length] have l: "length h \<le> length h1"
    by simp
  show ?case
  proof (cases e)
    case (Some x)
    with r t n p show ?thesis by simp
  next
    case None
    from l Cons.prems have "a < length h1" by simp
    from Cons.IH [OF this, of st1] obtain e2 h2 st2 where
      r2: "plotar_cidades_ref desenhar a data cs w i (h1, st1) = (e2, h2, st2)" and
      t2: "take (length h1) h2 = h1" and n2: "h2 ! a = h1 ! a" and
      p2: "plotar_cidades desenhar (h1 ! a) data cs w i st1 = (e2, st2)"
      by blast
    have "take (length h) (take (length h1) h2) = take (length h) h2"
      using l by (simp add: min_def)
    with t t2 have "take (length h) h2 = h"
      by simp
    with None r p r2 n n2 p2 show ?thesis by simp
  qed
qed

lemma main_ref_main:
  "main parse desenhar args st = (case main_ref parse desenhar args st of (e, h, st') \<Rightarrow> (e, st'))"
proof (cases "glob_banco (pasta st)")
  case Nil
  then show ?thesis by (simp add: main_def main_ref_def)
next
  case (Cons arquivo0 resto)
  let ?r = "if map_of (pasta st) (base_de_testes (data_do_arquivo arquivo0)) = None
      then criar_base parse (arquivo0 # resto) (data_do_arquivo arquivo0) st
      else carregar_base (data_do_arquivo arquivo0) st"
  obtain x st1 where r: "?r = (x, st1)" by (cases ?r)
  show ?thesis
  proof (cases x)
    case (Inl e)
    with Cons r show ?thesis by (simp add: main_def main_ref_def)
  next
    case (Inr b)
    show ?thesis
    proof (cases "teste_booleano b")
      case False
      with Cons r Inr show ?thesis
        by (simp add: main_def main_ref_def registros_testados_def)
    next
      case True
      let ?h = "[registros b, filter teste (registros b), filter teste (registros b)]"
      have "Suc (Suc 0) < length ?h" by simp
      from plotar_cidades_ref_pura [OF this, of desenhar "data_do_arquivo arquivo0" "cidades args"
          "janela args" "interativo args" st1]
      obtain e h' st' where
        "plotar_cidades_ref desenhar (Suc (Suc 0)) (data_do_arquivo arquivo0) (cidades args)
           (janela args) (interativo args) (?h, st1) = (e, h', st')"
        and "plotar_cidades desenhar (filter teste (registros b)) (data_do_arquivo arquivo0)
           (cidades args) (janela args) (interativo args) st1 = (e, st')"
        by auto
      with Cons r Inr True show ?thesis
        by (simp add: main_def main_ref_def registros_testados_def getitem_mask_def set_index_def)
    qed
  qed
qed

text \<open>
  C10. A call of the reporter on a reference to a table leaves every object that the
  store held as it was, the table included, and only adds the tables that lines 150 and
  159 make; line 150 binds the local name to a new table. The call returns, prints,
  shows and saves what the reporter does on the content of the table. The same holds
  for the whole batch, in which every call receives the same reference, so that every
  city is reported from the same table; and the program is the batch run on the table
  that lines 327-328 make.
\<close>

theorem plotar_nao_altera_a_tabela:
  assumes "a < length h"
  shows "(\<exists>e h' st'.
            plotar_testes_por_cidade_ref desenhar a cidade data w i (h, st) = (e, h', st') \<and>
            take (length h) h' = h \<and> h' ! a = h ! a \<and>
            plotar_testes_por_cidade desenhar (h ! a) cidade data w i st = (e, st')) \<and>
         (\<exists>e h' st'.
            plotar_cidades_ref desenhar a data cs w i (h, st) = (e, h', st') \<and>
            take (length h) h' = h \<and> h' ! a = h ! a \<and>
            plotar_cidades desenhar (h ! a) data cs w i st = (e, st')) \<and>
         main parse desenhar args st =
           (case main_ref parse desenhar args st of (e, h', st') \<Rightarrow> (e, st'))"
  using plotar_ref_pura [OF assms] plotar_cidades_ref_pura [OF assms] main_ref_main by blast

theorem plotar_nao_altera_a_tabela_witness:
  "(0::nat) < length [tabela_exemplo] \<and>
   (\<exists>e h' st'.
      plotar_testes_por_cidade_ref (\<lambda>_. None) 0 ''ILHEUS'' ''2020-08-01'' 1 True
        ([tabela_exemplo], estado_exemplo []) = (e, h', st') \<and>
      take 1 h' = [tabela_exemplo] \<and> h' ! 0 = tabela_exemplo \<and>
      plotar_testes_por_cidade (\<lambda>_. None) tabela_exemplo ''ILHEUS'' ''2020-08-01'' 1 True
        (estado_exemplo []) = (e, st')) \<and>
   (\<exists>e h' st'.
      plotar_cidades_ref (\<lambda>_. None) 0 ''2020-08-01'' [''ILHEUS'', ''BAHIA''] 1 True
        ([tabela_exemplo], estado_exemplo []) = (e, h', st') \<and>
      take 1 h' = [tabela_exemplo] \<and> h' ! 0 = tabela_exemplo \<and>
      plotar_cidades (\<lambda>_. None) tabela_exemplo ''2020-08-01'' [''ILHEUS'', ''BAHIA''] 1 True
        (estado_exemplo []) = (e, st')) \<and>
   fst (snd (plotar_cidades_ref (\<lambda>_. None) 0 ''2020-08-01'' [''ILHEUS'', ''BAHIA''] 1 True
        ([tabela_exemplo], estado_exemplo []))) =
     [tabela_exemplo,
      filter (\<lambda>r. municipio_de_residencia r = Some ''ILHEUS'') tabela_exemplo,
      [],
      filter (\<lambda>r. fonte r = ''CONFIRMADOS'') tabela_exemplo]"
proof -
  have l: "(0::nat) < length [tabela_exemplo]" by simp
  have s: "fst (snd (plotar_cidades_ref (\<lambda>_. None) 0 ''2020-08-01'' [''ILHEUS'', ''BAHIA''] 1 True
        ([tabela_exemplo], estado_exemplo []))) =
     [tabela_exemplo,
      filter (\<lambda>r. municipio_de_residencia r = Some ''ILHEUS'') tabela_exemplo,
      [],
      filter (\<lambda>r. fonte r = ''CONFIRMADOS'') tabela_exemplo]"
    by code_simp
  from plotar_nao_altera_a_tabela [OF l, of "\<lambda>_. None" "''ILHEUS''" "''2020-08-01''" 1 True
      "estado_exemplo []" "[''ILHEUS'', ''BAHIA'']"] s
  show ?thesis by simp
qed

end
